theory Spec2Isabelle
  imports Main "HOL-Library.Char_ord" "HOL-Library.Word"
begin

section \<open>Result and position model (Parser.h)\<close>

text \<open>
  \<^verbatim>\<open>struct StringState { bool success; int position; }\<close> and
  \<^verbatim>\<open>class ParseResult<T> { StringState state; std::optional<T> result; }\<close>.
  Positions are C++ \<^verbatim>\<open>int\<close>s; they are modelled as mathematical integers, so the
  development speaks about input buffers and positions below \<open>2^31\<close>, where no signed
  arithmetic of the source overflows.
\<close>

record StringState =
  success :: bool
  position :: int

record 'a ParseResult =
  state :: StringState
  result :: "'a option"

record ('a, 'b) Pair =
  first :: 'a
  second :: 'b

datatype Void = Void

text \<open>
  What an invocation can do besides returning a \<open>ParseResult\<close>: read the input buffer
  beyond its terminating character (undefined behaviour of \<^verbatim>\<open>std::string::operator[]\<close>),
  or leave by one of the exceptions of the standard library calls the source makes
  (\<^verbatim>\<open>std::optional::value\<close>, \<^verbatim>\<open>std::stoi\<close>, \<^verbatim>\<open>std::string::substr\<close>).
\<close>

datatype error = OutOfBoundsRead | BadOptionalAccess | InvalidArgument | OutOfRange

text \<open>
  The outcome of running a piece of the library: \<open>None\<close> when it does not return,
  \<open>Some (Inl e)\<close> when it leaves with the error \<open>e\<close>, \<open>Some (Inr v)\<close> when it returns \<open>v\<close>.
\<close>

type_synonym 'a outcome = "(error + 'a) option"

definition bind_outcome :: "'a outcome \<Rightarrow> ('a \<Rightarrow> 'b outcome) \<Rightarrow> 'b outcome" where
  "bind_outcome m k =
     Option.bind m (\<lambda>x. case x of Inl e \<Rightarrow> Some (Inl e) | Inr v \<Rightarrow> k v)"

abbreviation returns :: "'a \<Rightarrow> 'a outcome" where
  "returns v \<equiv> Some (Inr v)"

definition GetStringState :: "'a ParseResult \<Rightarrow> StringState" where
  "GetStringState r = state r"

text \<open>The member function \<^verbatim>\<open>ParseResult::Success()\<close>; the free function of the same
  name, which builds a result, is \<open>Success\<close> below.\<close>

definition is_Success :: "'a ParseResult \<Rightarrow> bool" where
  "is_Success r = success (state r)"

definition GetPosition :: "'a ParseResult \<Rightarrow> int" where
  "GetPosition r = position (state r)"

text \<open>\<^verbatim>\<open>result.value()\<close> throws \<^verbatim>\<open>std::bad_optional_access\<close> on an empty optional.\<close>

definition GetResult :: "'a ParseResult \<Rightarrow> error + 'a" where
  "GetResult r = (case result r of None \<Rightarrow> Inl BadOptionalAccess | Some v \<Rightarrow> Inr v)"

definition Success :: "int \<Rightarrow> 'a \<Rightarrow> 'a ParseResult" where
  "Success pos v = \<lparr>state = \<lparr>success = True, position = pos\<rparr>, result = Some v\<rparr>"

definition Fail :: "int \<Rightarrow> 'a ParseResult" where
  "Fail pos = \<lparr>state = \<lparr>success = False, position = pos\<rparr>, result = None\<rparr>"

section \<open>The parser engine\<close>

text \<open>
  \<^verbatim>\<open>class Parser<T>\<close> wraps a
  \<^verbatim>\<open>std::function<ParseResult<T>(const StringState&, const std::string&)>\<close>.
\<close>

type_synonym 'a Parser = "StringState \<Rightarrow> string \<Rightarrow> 'a ParseResult outcome"

text \<open>\<^verbatim>\<open>operator()(string, position)\<close> and \<^verbatim>\<open>operator()(string)\<close>.\<close>

definition invoke :: "'a Parser \<Rightarrow> string \<Rightarrow> int \<Rightarrow> 'a ParseResult outcome" where
  "invoke parser string pos = parser \<lparr>success = True, position = pos\<rparr> string"

definition invoke0 :: "'a Parser \<Rightarrow> string \<Rightarrow> 'a ParseResult outcome" where
  "invoke0 parser string = parser \<lparr>success = True, position = 0\<rparr> string"

text \<open>\<^verbatim>\<open>operator|\<close>: mapping the result of a parser.\<close>

definition map_parser :: "'a Parser \<Rightarrow> ('a \<Rightarrow> 'b) \<Rightarrow> 'b Parser" where
  "map_parser parser function = (\<lambda>st string.
     bind_outcome (parser st string) (\<lambda>res.
       if is_Success res
       then bind_outcome (Some (GetResult res)) (\<lambda>v.
              returns (Success (GetPosition res) (function v)))
       else returns (Fail (position st))))"


section \<open>Core combinators\<close>


definition seq_keep_second :: "Void Parser \<Rightarrow> 'a Parser \<Rightarrow> 'a Parser" where
  "seq_keep_second p1 p2 = (\<lambda>st string.
     if \<not> success st then returns (Fail (position st))
     else bind_outcome (invoke p1 string (position st)) (\<lambda>firstResult.
       if \<not> is_Success firstResult then returns (Fail (position st))
       else bind_outcome (invoke p2 string (GetPosition firstResult)) (\<lambda>secondResult.
         if \<not> is_Success secondResult then returns (Fail (position st))
         else bind_outcome (Some (GetResult secondResult)) (\<lambda>v.
           returns (Success (GetPosition secondResult) v)))))"


definition seq_pair :: "'a Parser \<Rightarrow> 'b Parser \<Rightarrow> ('a, 'b) Pair Parser" where
  "seq_pair p1 p2 = (\<lambda>st string.
     if \<not> success st then returns (Fail (position st))
     else bind_outcome (invoke p1 string (position st)) (\<lambda>firstResult.
       if \<not> is_Success firstResult then returns (Fail (position st))
       else bind_outcome (invoke p2 string (GetPosition firstResult)) (\<lambda>secondResult.
         if \<not> is_Success secondResult then returns (Fail (position st))
         else bind_outcome (Some (GetResult firstResult)) (\<lambda>v1.
              bind_outcome (Some (GetResult secondResult)) (\<lambda>v2.
                returns (Success (GetPosition secondResult)
                  \<lparr>first = v1, second = v2\<rparr>))))))"

text \<open>\<^verbatim>\<open>operator||\<close>.\<close>

definition alt :: "'a Parser \<Rightarrow> 'a Parser \<Rightarrow> 'a Parser" where
  "alt p1 p2 = (\<lambda>st string.
     bind_outcome (invoke p1 string (position st)) (\<lambda>firstResult.
       if is_Success firstResult then returns firstResult
       else bind_outcome (invoke p2 string (position st)) (\<lambda>secondResult.
         if is_Success secondResult then returns secondResult
         else returns (Fail (position st)))))"


section \<open>Conversions and reads the source leaves implicit\<close>

text \<open>
  An \<^verbatim>\<open>int\<close> compared with or added to a \<^verbatim>\<open>size_t\<close>, or used as an index, is first
  converted to \<^verbatim>\<open>size_t\<close> (64 bits): a negative position becomes a huge index.
\<close>

definition to_size_t :: "int \<Rightarrow> nat" where
  "to_size_t i = (if 0 \<le> i then nat i else nat (2 ^ 64 + i))"

text \<open>\<^verbatim>\<open>state.position + i\<close> with \<open>i\<close> a \<^verbatim>\<open>size_t\<close>: unsigned addition, which wraps.\<close>

definition add_size_t :: "int \<Rightarrow> nat \<Rightarrow> nat" where
  "add_size_t p i = (to_size_t p + i) mod 2 ^ 64"

definition bind_error :: "error + 'a \<Rightarrow> ('a \<Rightarrow> error + 'b) \<Rightarrow> error + 'b" where
  "bind_error m k = (case m of Inl e \<Rightarrow> Inl e | Inr v \<Rightarrow> k v)"

text \<open>
  \<^verbatim>\<open>string[i]\<close> on a \<^verbatim>\<open>const std::string&\<close>: the character at \<open>i\<close> below the length,
  the terminating \<^verbatim>\<open>'\0'\<close> at \<open>i\<close> equal to the length, undefined behaviour beyond.
\<close>

definition string_at :: "string \<Rightarrow> nat \<Rightarrow> error + char" where
  "string_at string i =
     (if i < length string then Inr (string ! i)
      else if i = length string then Inr (CHR 0x00)
      else Inl OutOfBoundsRead)"

text \<open>\<^verbatim>\<open>string.substr(pos, count)\<close> throws \<^verbatim>\<open>std::out_of_range\<close> when \<open>pos\<close> exceeds the size.\<close>

definition substr :: "string \<Rightarrow> nat \<Rightarrow> nat \<Rightarrow> error + string" where
  "substr string pos count =
     (if length string < pos then Inl OutOfRange else Inr (take count (drop pos string)))"

section \<open>Repetition and choice combinators\<close>

lemma bind_outcome_mono [partial_function_mono]:
  assumes "mono_option B" and "\<And>y. mono_option (\<lambda>f. C y f)"
  shows "mono_option (\<lambda>f. bind_outcome (B f) (\<lambda>y. C y f))"
  unfolding bind_outcome_def
proof (rule bind_mono [OF assms(1)])
  fix y :: "error + 'c"
  show "mono_option (\<lambda>f. case y of Inl e \<Rightarrow> Some (Inl e) | Inr v \<Rightarrow> C v f)"
    by (cases y) (simp_all add: assms(2) option.const_mono)
qed

text \<open>The \<^verbatim>\<open>while (true)\<close> loop of \<^verbatim>\<open>Many\<close>, on the loop variables \<open>position\<close> and
  \<open>results\<close>. Nothing in the loop bounds the number of iterations, so it is a partial
  function: \<open>None\<close> is a run that never leaves the loop.\<close>

partial_function (option) Many_loop ::
  "'a Parser \<Rightarrow> string \<Rightarrow> int \<Rightarrow> 'a list \<Rightarrow> 'a list ParseResult outcome" where
  "Many_loop parser string pos results =
     (if to_size_t pos = length string then returns (Success pos results)
      else bind_outcome (invoke parser string pos) (\<lambda>tempResult.
        if is_Success tempResult
        then bind_outcome (Some (GetResult tempResult)) (\<lambda>v.
               Many_loop parser string (GetPosition tempResult) (results @ [v]))
        else returns (Success pos results)))"

declare Many_loop.simps [code]

definition Many :: "'a Parser \<Rightarrow> 'a list Parser" where
  "Many parser = (\<lambda>st string. Many_loop parser string (position st) [])"


definition Between :: "32 word \<Rightarrow> 32 word \<Rightarrow> 'a Parser \<Rightarrow> 'a list Parser" where
  "Between minimum maximum parser = (\<lambda>st string.
     bind_outcome (invoke (Many parser) string (position st)) (\<lambda>matches.
       bind_outcome (Some (GetResult matches)) (\<lambda>res.
         if unat minimum \<le> length res \<and> length res \<le> unat maximum
         then returns (Success (GetPosition matches) res)
         else returns (Fail (position st)))))"

text \<open>
  \<^verbatim>\<open>AtLeastOne(parser)\<close> has no embedding. Its body is
  \<^verbatim>\<open>return AtLeast(parser, 1)(string, state.position);\<close>, with the arguments of
  \<^verbatim>\<open>AtLeast(uint32_t count, const Parser<T>& parser)\<close> in the wrong order: no overload
  takes a parser first and a number second, so the call has no type, here as in C++,
  where every instantiation of the template is rejected by the compiler.
\<close>





definition Not_parser :: "'a Parser \<Rightarrow> Void Parser" where
  "Not_parser parser = (\<lambda>st string.
     bind_outcome (invoke parser string (position st)) (\<lambda>res.
       if is_Success res then returns (Fail (position st))
       else returns (Success (position st + 1) Void)))"

section \<open>Primitive leaf parsers\<close>

definition Char_parser :: "char \<Rightarrow> char Parser" where
  "Char_parser character = (\<lambda>st string. Some (
     bind_error (string_at string (to_size_t (position st))) (\<lambda>c.
       if c = character then Inr (Success (position st + 1) character)
       else Inr (Fail (position st)))))"

text \<open>The \<^verbatim>\<open>for\<close> loop of \<^verbatim>\<open>String\<close> on its index \<open>i\<close>. The left operand of \<^verbatim>\<open>||\<close>
  reads the character before the right operand compares the index with the length.\<close>

function String_loop :: "string \<Rightarrow> StringState \<Rightarrow> string \<Rightarrow> nat \<Rightarrow> error + string ParseResult" where
  "String_loop pattern st string i =
     (if i < length pattern
      then bind_error (string_at string (add_size_t (position st) i)) (\<lambda>c.
             if c \<noteq> pattern ! i \<or> length string \<le> add_size_t (position st) i
             then Inr (Fail (position st))
             else String_loop pattern st string (i + 1))
      else Inr (Success (position st + int (length pattern)) pattern))"
  by pat_completeness auto
termination
  by (relation "measure (\<lambda>(pattern, st, string, i). length pattern - i)") auto

declare String_loop.simps [simp del]

definition String_parser :: "string \<Rightarrow> string Parser" where
  "String_parser pattern = (\<lambda>st string. Some (String_loop pattern st string 0))"

definition any :: "char Parser" where
  "any = (\<lambda>st string. Some (
     if position st < int (length string)
     then bind_error (string_at string (to_size_t (position st))) (\<lambda>c.
            Inr (Success (position st + 1) c))
     else Inr (Fail (position st))))"

text \<open>The character tests of the source, on the character's code. All the bounds are
  ASCII characters, so the tests give the same answer whether \<^verbatim>\<open>char\<close> is signed or
  unsigned: a character above 127 is outside every range either way.\<close>

definition is_letter :: "char \<Rightarrow> bool" where
  "is_letter c = ((CHR ''a'' \<le> c \<and> c \<le> CHR ''z'') \<or> (CHR ''A'' \<le> c \<and> c \<le> CHR ''Z''))"

definition is_digit :: "char \<Rightarrow> bool" where
  "is_digit c = (CHR ''0'' \<le> c \<and> c \<le> CHR ''9'')"

definition is_whitespace :: "char \<Rightarrow> bool" where
  "is_whitespace c = (c = CHR '' '' \<or> c = CHR 0x0A \<or> c = CHR 0x09)"

definition is_alphanumeric :: "char \<Rightarrow> bool" where
  "is_alphanumeric c =
     ((CHR ''a'' \<le> c \<and> c \<le> CHR ''z'') \<or> (CHR ''A'' \<le> c \<and> c \<le> CHR ''Z'') \<or>
      (CHR ''0'' \<le> c \<and> c \<le> CHR ''9''))"

definition letter :: "char Parser" where
  "letter = (\<lambda>st string. Some (
     bind_error (string_at string (to_size_t (position st))) (\<lambda>c.
       if is_letter c then Inr (Success (position st + 1) c)
       else Inr (Fail (position st)))))"

definition digit :: "char Parser" where
  "digit = (\<lambda>st string. Some (
     bind_error (string_at string (to_size_t (position st))) (\<lambda>c.
       if is_digit c then Inr (Success (position st + 1) c)
       else Inr (Fail (position st)))))"

definition whitespace :: "char Parser" where
  "whitespace = (\<lambda>st string. Some (
     bind_error (string_at string (to_size_t (position st))) (\<lambda>c.
       if is_whitespace c then Inr (Success (position st + 1) c)
       else Inr (Fail (position st)))))"

definition alphanumeric :: "char Parser" where
  "alphanumeric = (\<lambda>st string. Some (
     bind_error (string_at string (to_size_t (position st))) (\<lambda>c.
       if is_alphanumeric c then Inr (Success (position st + 1) c)
       else Inr (Fail (position st)))))"

text \<open>
  \<^verbatim>\<open>whitespaces\<close>, \<^verbatim>\<open>letters\<close>, \<^verbatim>\<open>digits\<close>, \<^verbatim>\<open>alphanumerics\<close> and \<^verbatim>\<open>integer\<close> each
  contain the same loop, \<^verbatim>\<open>while (true) { c = string[position]; if (test(c)) ++position;
  else break; }\<close>, with their own character test. It is written once, with the test as
  a parameter, and returns the final \<open>position\<close>. The loop ends: a read beyond the
  terminating character is an error, so \<open>position\<close> cannot pass the length.
\<close>

function scan_while :: "(char \<Rightarrow> bool) \<Rightarrow> string \<Rightarrow> int \<Rightarrow> error + int" where
  "scan_while test string pos =
     (case string_at string (to_size_t pos) of
        Inl e \<Rightarrow> Inl e
      | Inr c \<Rightarrow> if test c then scan_while test string (pos + 1) else Inr pos)"
  by pat_completeness auto
termination
proof (relation "measure (\<lambda>(test, string, pos). nat (int (length string) + 1 - pos))")
  show "wf (measure (\<lambda>(test, string, pos). nat (int (length string) + 1 - pos)))"
    by simp
next
  fix test :: "char \<Rightarrow> bool" and string :: string and pos :: int and c :: char
  assume "string_at string (to_size_t pos) = Inr c"
  then have "pos \<le> int (length string)"
    by (auto simp: string_at_def to_size_t_def split: if_splits)
  then show "((test, string, pos + 1), (test, string, pos))
      \<in> measure (\<lambda>(test, string, pos). nat (int (length string) + 1 - pos))"
    by simp
qed

declare scan_while.simps [simp del]

definition scan_parser :: "(char \<Rightarrow> bool) \<Rightarrow> string Parser" where
  "scan_parser test = (\<lambda>st string. Some (
     bind_error (scan_while test string (position st)) (\<lambda>pos.
       let count = pos - position st in
       bind_error (substr string (to_size_t (position st)) (to_size_t count)) (\<lambda>sub.
         Inr (Success pos sub)))))"

definition whitespaces :: "string Parser" where
  "whitespaces = scan_parser is_whitespace"

definition letters :: "string Parser" where
  "letters = scan_parser is_letter"



text \<open>\<^verbatim>\<open>word = whitespaces >> letters | [](const auto& pair) { return pair.second; }\<close>:
  \<^verbatim>\<open>>>\<close> binds tighter than \<^verbatim>\<open>|\<close>, and both operands carry a string, so the sequence is
  the pair-building overload.\<close>

definition word :: "string Parser" where
  "word = map_parser (seq_pair whitespaces letters) second"

text \<open>
  \<^verbatim>\<open>std::stoi\<close> is the C++ standard library's, not this repository's. Its model follows
  the standard: skip leading white space, read an optional sign and the longest run of
  decimal digits, throw \<^verbatim>\<open>std::invalid_argument\<close> when there is no digit and
  \<^verbatim>\<open>std::out_of_range\<close> when the value does not fit a 32-bit \<^verbatim>\<open>int\<close>.
\<close>

definition isspace :: "char \<Rightarrow> bool" where
  "isspace c = (c = CHR '' '' \<or> (CHR 0x09 \<le> c \<and> c \<le> CHR 0x0D))"

definition digits_value :: "string \<Rightarrow> int" where
  "digits_value ds = foldl (\<lambda>acc c. acc * 10 + (of_char c - 48)) 0 ds"

definition stoi :: "string \<Rightarrow> error + int" where
  "stoi str =
     (let s1 = dropWhile isspace str;
          neg = (s1 \<noteq> [] \<and> hd s1 = CHR ''-'');
          s2 = (if s1 \<noteq> [] \<and> (hd s1 = CHR ''-'' \<or> hd s1 = CHR ''+'') then tl s1 else s1);
          ds = takeWhile is_digit s2
      in if ds = [] then Inl InvalidArgument
         else let v = (if neg then - digits_value ds else digits_value ds)
              in if v < - (2 ^ 31) \<or> 2 ^ 31 - 1 < v then Inl OutOfRange else Inr v)"

definition integer :: "int Parser" where
  "integer = (\<lambda>st string. Some (
     bind_error (string_at string (to_size_t (position st))) (\<lambda>c.
       let pos = (if c = CHR ''-'' then position st + 1 else position st) in
       bind_error (string_at string (to_size_t pos)) (\<lambda>c1.
         bind_error (string_at string (to_size_t (pos + 1))) (\<lambda>c2.
           if c1 = CHR ''0'' \<and> CHR ''0'' \<le> c2 \<and> c2 \<le> CHR ''9''
           then Inr (Fail (position st))
           else bind_error (scan_while is_digit string pos) (\<lambda>pos'.
                  let count = pos' - position st in
                  bind_error (substr string (to_size_t (position st)) (to_size_t count)) (\<lambda>sub.
                    bind_error (stoi sub) (\<lambda>res.
                      Inr (Success pos' res)))))))))"

section \<open>Vocabulary of the properties\<close>


text \<open>\<open>consecutive P s p xs q\<close>: started at \<open>p\<close>, before the end of the input each time,
  \<open>P\<close> matches \<open>length xs\<close> times in a row, with the values \<open>xs\<close>, and the last match ends
  at \<open>q\<close>. \<open>stops P s q\<close>: the run of matches cannot be continued at \<open>q\<close>, which is the
  end of the input or a position where \<open>P\<close> fails.\<close>

fun consecutive :: "'a Parser \<Rightarrow> string \<Rightarrow> int \<Rightarrow> 'a list \<Rightarrow> int \<Rightarrow> bool" where
  "consecutive P s p [] q = (q = p)"
| "consecutive P s p (x # xs) q =
     (to_size_t p \<noteq> length s \<and>
      (case invoke P s p of
         Some (Inr r) \<Rightarrow> is_Success r \<and> result r = Some x \<and> consecutive P s (GetPosition r) xs q
       | _ \<Rightarrow> False))"

definition stops :: "'a Parser \<Rightarrow> string \<Rightarrow> int \<Rightarrow> bool" where
  "stops P s q =
     (to_size_t q = length s \<or>
      (case invoke P s q of Some (Inr r) \<Rightarrow> \<not> is_Success r | _ \<Rightarrow> False))"




section \<open>Basic facts\<close>

lemma bind_outcome_simps [simp]:
  "bind_outcome None k = None"
  "bind_outcome (Some (Inl e)) k = Some (Inl e)"
  "bind_outcome (Some (Inr v)) k = k v"
  by (simp_all add: bind_outcome_def)

lemma bind_error_simps [simp]:
  "bind_error (Inl e) k' = Inl e"
  "bind_error (Inr v) k' = k' v"
  by (simp_all add: bind_error_def)

lemma Success_simps [simp]:
  "is_Success (Success p v)"
  "GetPosition (Success p v) = p"
  "GetResult (Success p v) = Inr v"
  "result (Success p v) = Some v"
  by (simp_all add: is_Success_def GetPosition_def GetResult_def Success_def)

lemma Fail_simps [simp]:
  "\<not> is_Success (Fail p)"
  "GetPosition (Fail p) = p"
  "GetResult (Fail p) = Inl BadOptionalAccess"
  by (simp_all add: is_Success_def GetPosition_def GetResult_def Fail_def)

lemma Success_eq_iff [simp]: "Success p v = Success q w \<longleftrightarrow> p = q \<and> v = w"
  by (auto simp: Success_def)

lemma Fail_eq_iff [simp]: "(Fail p :: 'a ParseResult) = Fail q \<longleftrightarrow> p = q"
  by (auto simp: Fail_def)

lemma Success_neq_Fail [simp]: "Success p v \<noteq> Fail q" "Fail q \<noteq> Success p v"
  by (auto simp: Success_def Fail_def)

lemma to_size_t_nonneg [simp]: "0 \<le> i \<Longrightarrow> to_size_t i = nat i"
  by (simp add: to_size_t_def)

lemma GetResult_Some: "result r = Some x \<Longrightarrow> GetResult r = Inr x"
  by (simp add: GetResult_def)

section \<open>Failure as a value\<close>

text \<open>
  C1. Every parse failure is a returned \<open>ParseResult\<close> with the success flag false; no
  invocation throws. In particular \<open>integer\<close>, on an input without a digit, returns a
  failed result. The source does not: with no digit to read, the scanned substring is
  empty and \<^verbatim>\<open>std::stoi\<close> throws \<^verbatim>\<open>std::invalid_argument\<close>. The theorem runs
  \<open>integer\<close> on \<open>abc\<close> at position 0.
\<close>

theorem integer_without_digit_throws:
  "invoke integer ''abc'' 0 = Some (Inl InvalidArgument)"
  by (simp add: invoke_def integer_def scan_while.simps string_at_def is_digit_def substr_def
      stoi_def isspace_def)

section \<open>Reads within the bounds of the input\<close>

text \<open>
  C2. \<open>String(pattern)\<close>, \<open>letter\<close>, \<open>digit\<close>, \<open>whitespace\<close> and \<open>alphanumeric\<close> compare
  the index with the length of the input before they read, so that no read is out of
  bounds at any starting position. The source does not: the four character classes read
  \<^verbatim>\<open>string[state.position]\<close> with no test, and \<open>String\<close> reads before it tests. The
  theorem runs them one past the terminating character of \<open>ab\<close>, and runs \<open>letter\<close> after
  \<open>Not(Char('a'))\<close> on the empty input from position 0, where \<open>Not\<close> has moved the position
  to 1.
\<close>

theorem leaf_parsers_read_out_of_bounds:
  "invoke letter ''ab'' 3 = Some (Inl OutOfBoundsRead) \<and>
   invoke digit ''ab'' 3 = Some (Inl OutOfBoundsRead) \<and>
   invoke whitespace ''ab'' 3 = Some (Inl OutOfBoundsRead) \<and>
   invoke alphanumeric ''ab'' 3 = Some (Inl OutOfBoundsRead) \<and>
   invoke (String_parser ''a'') ''ab'' 3 = Some (Inl OutOfBoundsRead) \<and>
   invoke (seq_keep_second (Not_parser (Char_parser CHR ''a'')) letter) '''' 0
     = Some (Inl OutOfBoundsRead)"
  by (simp add: invoke_def letter_def digit_def whitespace_def alphanumeric_def
      String_parser_def String_loop.simps add_size_t_def string_at_def seq_keep_second_def Not_parser_def
      Char_parser_def)

section \<open>Between\<close>

lemma Many_loop_consecutive:
  "consecutive P s p xs q \<Longrightarrow> Many_loop P s p acc = Many_loop P s q (acc @ xs)"
proof (induction xs arbitrary: p acc)
  case Nil
  then show ?case by simp
next
  case (Cons x xs)
  from Cons.prems obtain r where r: "to_size_t p \<noteq> length s" "invoke P s p = returns r"
    "is_Success r" "result r = Some x" "consecutive P s (GetPosition r) xs q"
    by (auto split: option.splits sum.splits)
  have "Many_loop P s p acc = Many_loop P s (GetPosition r) (acc @ [x])"
    by (subst Many_loop.simps) (simp add: r GetResult_Some)
  also have "\<dots> = Many_loop P s q ((acc @ [x]) @ xs)"
    by (rule Cons.IH [OF r(5)])
  finally show ?case by simp
qed

lemma Many_loop_stops:
  "stops P s q \<Longrightarrow> Many_loop P s q acc = returns (Success q acc)"
  by (subst Many_loop.simps) (auto simp: stops_def split: option.splits sum.splits)

lemma Many_run:
  assumes "consecutive P s p xs q" and "stops P s q"
  shows "invoke (Many P) s p = returns (Success q xs)"
  using Many_loop_consecutive [OF assms(1), of "[]"] Many_loop_stops [OF assms(2), of xs]
  by (simp add: invoke_def Many_def)

text \<open>
  C4, as the source has it. \<open>Between(min, max, P)\<close> runs \<open>Many(P)\<close> to the end of the run
  of matches and compares the number of matches with both bounds afterwards: when \<open>P\<close>
  matches consecutively with the values \<open>xs\<close> from \<open>p\<close> to \<open>q\<close> and the run stops at \<open>q\<close>,
  \<open>Between\<close> succeeds with all of \<open>xs\<close> at \<open>q\<close> if the length of \<open>xs\<close> lies between \<open>min\<close> and
  \<open>max\<close>, and fails at \<open>p\<close> otherwise, so also when there are more than \<open>max\<close> matches.
\<close>

theorem Between_post_hoc:
  assumes "consecutive P s p xs q" and "stops P s q"
  shows "invoke (Between lo hi P) s p =
           returns (if unat lo \<le> length xs \<and> length xs \<le> unat hi
                    then Success q xs else Fail p)"
  using Many_run [OF assms]
  by (simp add: Between_def invoke_def)

theorem Between_post_hoc_witness:
  "invoke (Between 0 1 (Char_parser CHR ''a'')) ''aa'' 0 = returns (Fail 0) \<and>
   invoke (Between 1 2 (Char_parser CHR ''a'')) ''aa'' 0 = returns (Success 2 ''aa'')"
proof -
  have c: "consecutive (Char_parser CHR ''a'') ''aa'' 0 ''aa'' 2"
    by (simp add: invoke_def Char_parser_def string_at_def)
  have t: "stops (Char_parser CHR ''a'') ''aa'' 2"
    by (simp add: stops_def)
  show ?thesis
    using Between_post_hoc [OF c t, of 0 1] Between_post_hoc [OF c t, of 1 2] by simp
qed

text \<open>C4 as stated fails: \<open>Char('a')\<close> matches twice in a row on \<open>aa\<close>, more than the
  upper bound 1, and \<open>Between(0, 1, Char('a'))\<close> does not succeed with one match at
  position 1; it fails at position 0.\<close>

theorem Between_upper_bound_counterexample:
  "consecutive (Char_parser CHR ''a'') ''aa'' 0 ''aa'' 2 \<and>
   invoke (Between 0 1 (Char_parser CHR ''a'')) ''aa'' 0 = returns (Fail 0) \<and>
   invoke (Between 0 1 (Char_parser CHR ''a'')) ''aa'' 0 \<noteq> returns (Success 1 ''a'')"
  by (simp add: invoke_def Between_def Many_def Many_loop.simps Char_parser_def string_at_def)

section \<open>Map\<close>




section \<open>Alternation\<close>

text \<open>
  C7. \<open>(A || B)(s, p)\<close> is \<open>A(s, p)\<close> when that succeeds; otherwise it is \<open>B(s, p)\<close> when
  that succeeds; when both fail, whatever positions their failures report, it is a
  failure at \<open>p\<close>.
\<close>

theorem alt_contract:
  "(invoke A s p = returns ra \<and> is_Success ra \<longrightarrow>
      invoke (alt A B) s p = invoke A s p) \<and>
   (invoke A s p = returns ra \<and> \<not> is_Success ra \<and>
    invoke B s p = returns rb \<and> is_Success rb \<longrightarrow>
      invoke (alt A B) s p = invoke B s p) \<and>
   (invoke A s p = returns ra \<and> \<not> is_Success ra \<and>
    invoke B s p = returns rb \<and> \<not> is_Success rb \<longrightarrow>
      invoke (alt A B) s p = returns (Fail p))"
  by (simp add: invoke_def alt_def)

theorem alt_contract_witness:
  "invoke (alt (Char_parser CHR ''a'') (Char_parser CHR ''b'')) ''a'' 0
     = returns (Success 1 CHR ''a'') \<and>
   invoke (alt (Char_parser CHR ''a'') (Char_parser CHR ''b'')) ''b'' 0
     = returns (Success 1 CHR ''b'') \<and>
   invoke (alt (Char_parser CHR ''a'') (Char_parser CHR ''b'')) ''c'' 0
     = returns (Fail 0)"
  using alt_contract [of "Char_parser CHR ''a''" "''a''" 0 "Success 1 CHR ''a''" "Char_parser CHR ''b''"]
    alt_contract [of "Char_parser CHR ''a''" "''b''" 0 "Fail 0" "Char_parser CHR ''b''" "Success 1 CHR ''b''"]
    alt_contract [of "Char_parser CHR ''a''" "''c''" 0 "Fail 0" "Char_parser CHR ''b''" "Fail 0"]
  by (simp add: invoke_def Char_parser_def string_at_def)

section \<open>Not\<close>

text \<open>
  C10. When \<open>P\<close> fails at the end of the input \<open>s\<close>, \<open>Not(P)\<close> started there succeeds with
  the position \<open>length s + 1\<close>, which is past the end of the input; \<open>Not(any)\<close> on the
  empty input at 0 succeeds with position 1.
\<close>

theorem Not_parser_past_end:
  "invoke P s (int (length s)) = returns r \<and> \<not> is_Success r \<longrightarrow>
     invoke (Not_parser P) s (int (length s)) = returns (Success (int (length s) + 1) Void) \<and>
     int (length s) < GetPosition (Success (int (length s) + 1) Void)"
  by (simp add: invoke_def Not_parser_def)

theorem Not_parser_past_end_witness:
  "invoke any '''' 0 = returns (Fail 0) \<and>
   invoke (Not_parser any) '''' 0 = returns (Success 1 Void)"
  using Not_parser_past_end [of any "''''" "Fail 0"]
  by (simp add: invoke_def any_def)

section \<open>Invocation of the combinators\<close>















lemma invoke_any:
  "invoke any s p =
     Some (if p < int (length s)
           then bind_error (string_at s (to_size_t p)) (\<lambda>c. Inr (Success (p + 1) c))
           else Inr (Fail p))"
  by (simp add: invoke_def any_def cong: if_cong)



lemma invoke_whitespace:
  "invoke whitespace s p =
     Some (bind_error (string_at s (to_size_t p)) (\<lambda>c.
       if is_whitespace c then Inr (Success (p + 1) c) else Inr (Fail p)))"
  by (simp add: invoke_def whitespace_def cong: if_cong)

lemma invoke_alphanumeric:
  "invoke alphanumeric s p =
     Some (bind_error (string_at s (to_size_t p)) (\<lambda>c.
       if is_alphanumeric c then Inr (Success (p + 1) c) else Inr (Fail p)))"
  by (simp add: invoke_def alphanumeric_def cong: if_cong)

section \<open>Where a success ends\<close>



















section \<open>The word parser\<close>

lemma class_tests_NUL [simp]:
  "\<not> is_whitespace (CHR 0x00)" "\<not> is_letter (CHR 0x00)"
  "\<not> is_digit (CHR 0x00)" "\<not> is_alphanumeric (CHR 0x00)"
  by (simp_all add: is_whitespace_def is_letter_def is_digit_def is_alphanumeric_def)

lemma scan_while_takeWhile:
  "\<not> test (CHR 0x00) \<Longrightarrow> 0 \<le> p \<Longrightarrow> p \<le> int (length s) \<Longrightarrow>
   scan_while test s p = Inr (p + int (length (takeWhile test (drop (nat p) s))))"
proof (induction test s p rule: scan_while.induct)
  case (1 test string pos)
  show ?case
  proof (cases "pos = int (length string)")
    case True
    with "1.prems" show ?thesis
      by (subst scan_while.simps) (simp add: string_at_def)
  next
    case False
    with "1.prems" have lt: "nat pos < length string" by simp
    have at: "string_at string (to_size_t pos) = Inr (string ! nat pos)"
      using lt "1.prems" by (simp add: string_at_def)
    have dr: "drop (nat pos) string = string ! nat pos # drop (nat (pos + 1)) string"
      using lt "1.prems" by (simp add: Cons_nth_drop_Suc nat_add_distrib)
    show ?thesis
    proof (cases "test (string ! nat pos)")
      case True
      have "scan_while test string (pos + 1)
          = Inr (pos + 1 + int (length (takeWhile test (drop (nat (pos + 1)) string))))"
        using "1.IH" [OF at True] "1.prems" lt by simp
      then show ?thesis
        by (subst scan_while.simps) (simp add: at True dr)
    next
      case False
      then show ?thesis
        by (subst scan_while.simps) (simp add: at dr)
    qed
  qed
qed

lemma scan_parser_run:
  assumes "\<not> test (CHR 0x00)" "0 \<le> p" "p \<le> int (length s)"
  shows "invoke (scan_parser test) s p =
           returns (Success (p + int (length (takeWhile test (drop (nat p) s))))
                      (takeWhile test (drop (nat p) s)))"
proof -
  have "take (length (takeWhile test (drop (nat p) s))) (drop (nat p) s)
      = takeWhile test (drop (nat p) s)"
    by (rule takeWhile_eq_take [symmetric])
  then show ?thesis
    using assms
    by (simp add: invoke_def scan_parser_def scan_while_takeWhile substr_def)
qed

text \<open>
  C8, as the source has it. Started within the input, \<open>word\<close> skips the leading white
  space and captures the maximal run of letters that follows, which may be empty: it
  always succeeds, its value is that run without the skipped white space, and its
  position is the one after the run.
\<close>

theorem word_result:
  assumes "0 \<le> p" "p \<le> int (length s)"
  shows "invoke word s p =
           returns (Success
             (p + int (length (takeWhile is_whitespace (drop (nat p) s)))
                + int (length (takeWhile is_letter (dropWhile is_whitespace (drop (nat p) s)))))
             (takeWhile is_letter (dropWhile is_whitespace (drop (nat p) s))))"
proof -
  let ?ws = "takeWhile is_whitespace (drop (nat p) s)"
  let ?q = "p + int (length ?ws)"
  have "length ?ws \<le> length (drop (nat p) s)"
    by (rule length_takeWhile_le)
  with assms have q: "0 \<le> ?q" "?q \<le> int (length s)"
    by simp_all
  have "drop (nat ?q) s = drop (length ?ws) (drop (nat p) s)"
    using assms by (simp add: nat_add_distrib add.commute)
  also have "\<dots> = dropWhile is_whitespace (drop (nat p) s)"
    by (rule dropWhile_eq_drop [symmetric])
  finally have d: "drop (nat ?q) s = dropWhile is_whitespace (drop (nat p) s)" .
  have w: "invoke whitespaces s p = returns (Success ?q ?ws)"
    unfolding whitespaces_def using assms by (simp add: scan_parser_run)
  have l: "invoke letters s ?q =
      returns (Success (?q + int (length (takeWhile is_letter (drop (nat ?q) s))))
                 (takeWhile is_letter (drop (nat ?q) s)))"
    unfolding letters_def using q by (simp add: scan_parser_run)
  show ?thesis
    using w l by (simp add: word_def map_parser_def seq_pair_def invoke_def d)
qed

theorem word_result_witness:
  "invoke word ''  ab1'' 0 = returns (Success 4 ''ab'') \<and>
   invoke word ''12'' 0 = returns (Success 0 [])"
  using word_result [of 0 "''  ab1''"] word_result [of 0 "''12''"]
  by (simp add: is_whitespace_def is_letter_def)

text \<open>C8 as stated fails: on \<open>12\<close>, where no letter follows the (empty) white space,
  \<open>word\<close> does not fail; it succeeds with the empty string at position 0.\<close>

theorem word_without_letter_counterexample:
  "invoke word ''12'' 0 = returns (Success 0 []) \<and>
   is_Success (Success 0 ([] :: string))"
  by (simp add: invoke_def word_def map_parser_def seq_pair_def whitespaces_def letters_def
      scan_parser_def scan_while.simps string_at_def substr_def is_whitespace_def is_letter_def)


section \<open>Monotonic consumption\<close>





























section \<open>Termination\<close>























end
